theory Spec2Isabelle
  imports Main
begin

section \<open>User session details page (console) and the UI cookie guard (schemas)\<close>

text \<open>
  A shallow embedding of \<^verbatim>\<open>packages/console/src/pages/UserSessionDetails/index.tsx\<close>
  and \<^verbatim>\<open>packages/schemas/src/types/cookie.ts\<close>.

  Conventions.
  \<^item> An optional JavaScript value (\<^verbatim>\<open>T | undefined\<close>) is a \<open>'a option\<close>, with
    \<open>None\<close> for \<^verbatim>\<open>undefined\<close>.
  \<^item> Timestamps are integers (\<open>int\<close>): \<^verbatim>\<open>loginTs\<close> is an epoch count, and the
    product the code forms from a non-negative value stays below \<open>10^15\<close>, where doubles
    are exact.
  \<^item> Collaborators imported from elsewhere (\<^verbatim>\<open>isBuiltInApplicationId\<close>,
    \<^verbatim>\<open>getSessionDisplayInfo\<close>, the locale formatting of a date) are parameters of the
    functions that call them.
\<close>

subsection \<open>JavaScript truthiness and nullish coalescing on optional strings\<close>

text \<open>\<^verbatim>\<open>!!s\<close> for \<^verbatim>\<open>s: string | undefined\<close>: false on \<^verbatim>\<open>undefined\<close> and on the empty string.\<close>

fun truthy :: "string option \<Rightarrow> bool" where
  "truthy None = False"
| "truthy (Some s) = (s \<noteq> [])"


subsection \<open>formatTimestamp\<close>

text \<open>
  \<^verbatim>\<open>const timestamp = value < 1_000_000_000_000 ? value * 1000 : value;\<close>
  The local binding of \<^verbatim>\<open>formatTimestamp\<close>: the millisecond instant handed to
  \<^verbatim>\<open>new Date\<close>.
\<close>

definition timestamp :: "int \<Rightarrow> int" where
  "timestamp v = (if v < 1000000000000 then v * 1000 else v)"

text \<open>
  \<^verbatim>\<open>formatTimestamp(value?: number)\<close>. The parameter \<open>toLocaleString\<close> stands for
  \<^verbatim>\<open>(t) => new Date(t).toLocaleString()\<close>, which depends on the host's locale and
  returns a string for every number; \<^verbatim>\<open>!value\<close> holds for \<^verbatim>\<open>undefined\<close> and for \<open>0\<close>.
\<close>

definition formatTimestamp :: "(int \<Rightarrow> string) \<Rightarrow> int option \<Rightarrow> string" where
  "formatTimestamp toLocaleString v =
     (case v of
        None \<Rightarrow> ''-''
      | Some n \<Rightarrow> if n = 0 then ''-'' else toLocaleString (timestamp n))"

subsection \<open>The session record and its display information\<close>

text \<open>
  \<^verbatim>\<open>GetUserSessionResponse\<close> (declared in \<^verbatim>\<open>@logto/schemas\<close>), restricted to the
  fields the page reads. \<^verbatim>\<open>authorizations\<close> is a JavaScript object keyed by client id,
  given by its entries as received from the backend, in the order of insertion; an entry
  whose key was inserted before overwrites the value and keeps the key's place. The grant
  payload \<open>'g\<close> is opaque.
\<close>

record 'g session_payload =
  uid :: string
  loginTs :: "int option"
  authorizations :: "(string \<times> 'g) list"

record 'g user_session =
  payload :: "'g session_payload"

text \<open>The property keys of an object in the order of their creation, each once.\<close>

fun createdKeys :: "string list \<Rightarrow> (string \<times> 'g) list \<Rightarrow> string list" where
  "createdKeys ks [] = ks"
| "createdKeys ks ((k, v) # es) = createdKeys (if k \<in> set ks then ks else ks @ [k]) es"

text \<open>
  A property key is an array index when it is the canonical decimal numeral (no sign, no
  leading zero) of an integer from \<open>0\<close> to \<open>2^32 - 2\<close>.
\<close>

definition digitValue :: "char \<Rightarrow> nat option" where
  "digitValue c = map_of (zip ''0123456789'' [0, 1, 2, 3, 4, 5, 6, 7, 8, 9]) c"

definition decimal :: "string \<Rightarrow> nat" where
  "decimal s = foldl (\<lambda>n c. 10 * n + (case digitValue c of Some d \<Rightarrow> d | None \<Rightarrow> 0)) 0 s"

definition isArrayIndex :: "string \<Rightarrow> bool" where
  "isArrayIndex s =
     (case s of
        [] \<Rightarrow> False
      | c # cs \<Rightarrow>
          list_all (\<lambda>x. digitValue x \<noteq> None) s
          \<and> (if c = CHR ''0'' then cs = [] else True)
          \<and> decimal s < 4294967295)"

text \<open>
  \<^verbatim>\<open>Object.keys(obj)\<close>, the own property keys in the order the language fixes: the
  array indices first, in ascending numeric order, then the other keys in the order of
  their creation.
\<close>

definition Object_keys :: "(string \<times> 'g) list \<Rightarrow> string list" where
  "Object_keys obj =
     (let ks = createdKeys [] obj
      in sort_key decimal (filter isArrayIndex ks) @ filter (\<lambda>k. \<not> isArrayIndex k) ks)"

text \<open>
  The result of \<^verbatim>\<open>getSessionDisplayInfo\<close> (imported from the user-sessions utilities),
  restricted to the fields the page reads; each may be \<^verbatim>\<open>undefined\<close>.
\<close>

record session_info =
  ip :: "string option"
  location :: "string option"
  browserName :: "string option"
  osName :: "string option"
  name :: "string option"
  deviceModel :: "string option"

subsection \<open>Rendered nodes\<close>

text \<open>
  The fragment of \<^verbatim>\<open>ReactNode\<close> the derived values are built from: \<^verbatim>\<open>null\<close>, a string,
  \<^verbatim>\<open><DynamicT forKey interpolation />\<close>, \<^verbatim>\<open><UserName isLink userId />\<close>,
  \<^verbatim>\<open><ApplicationName applicationId isLink />\<close>, \<^verbatim>\<open><Fragment key>\<close> with its children,
  and an array of nodes.
\<close>

datatype react_node =
    Null
  | Text string
  | DynamicT string "(string \<times> string) list"
  | UserName bool string
  | ApplicationName string bool
  | Fragment string "react_node list"
  | Nodes "react_node list"

text \<open>
  \<^verbatim>\<open>sessionInfo = sessionData ? getSessionDisplayInfo(sessionData) : undefined\<close> and
  \<^verbatim>\<open>sessionLocation = sessionInfo?.location ?? '-'\<close>.
\<close>

definition sessionInfo ::
  "('g user_session \<Rightarrow> session_info) \<Rightarrow> 'g user_session option \<Rightarrow> session_info option" where
  "sessionInfo getSessionDisplayInfo sessionData =
     (case sessionData of Some d \<Rightarrow> Some (getSessionDisplayInfo d) | None \<Rightarrow> None)"

text \<open>\<^verbatim>\<open>x ?? '-'\<close> on an optional string.\<close>

definition orDash :: "string option \<Rightarrow> string" where
  "orDash x = (case x of Some s \<Rightarrow> s | None \<Rightarrow> ''-'')"

definition sessionLocation :: "session_info option \<Rightarrow> string" where
  "sessionLocation si = orDash (Option.bind si location)"

subsection \<open>headerTitle\<close>


subsection \<open>signedInAt and applications\<close>

definition signedInAt :: "(int \<Rightarrow> string) \<Rightarrow> 'g user_session option \<Rightarrow> string" where
  "signedInAt toLocaleString sessionData =
     formatTimestamp toLocaleString (Option.bind sessionData (\<lambda>d. loginTs (payload d)))"

text \<open>
  The callback of \<^verbatim>\<open>authorizedApplicationIds.map\<close>: a keyed fragment holding the
  separator (\<^verbatim>\<open>index > 0 ? ', ' : null\<close>) and the application name, a link unless the
  id is a built-in application's.
\<close>

definition applicationFragment :: "(string \<Rightarrow> bool) \<Rightarrow> nat \<times> string \<Rightarrow> react_node" where
  "applicationFragment isBuiltInApplicationId ia =
     (case ia of (index, applicationId) \<Rightarrow>
        Fragment applicationId
          [if index > 0 then Text '', '' else Null,
           ApplicationName applicationId (\<not> isBuiltInApplicationId applicationId)])"

definition applications :: "(string \<Rightarrow> bool) \<Rightarrow> 'g user_session option \<Rightarrow> react_node" where
  "applications isBuiltInApplicationId sessionData =
     (let authorizedApplicationIds =
            (case sessionData of
               Some d \<Rightarrow> Object_keys (authorizations (payload d))
             | None \<Rightarrow> [])
      in if length authorizedApplicationIds = 0 then Text ''-''
         else Nodes (map (applicationFragment isBuiltInApplicationId)
                       (enumerate 0 authorizedApplicationIds)))"

subsection \<open>infoFields\<close>

record info_field =
  key :: string
  labelKey :: string
  valueNode :: react_node

text \<open>The collaborators the page imports, gathered for \<^verbatim>\<open>infoFields\<close>.\<close>

record 'g collaborators =
  isBuiltInApplicationId :: "string \<Rightarrow> bool"
  getSessionDisplayInfo :: "'g user_session \<Rightarrow> session_info"
  toLocaleString :: "int \<Rightarrow> string"

definition infoFields ::
  "'g collaborators \<Rightarrow> string option \<Rightarrow> 'g user_session option \<Rightarrow> info_field list" where
  "infoFields env userId sessionData =
     (case sessionData of
        None \<Rightarrow> []
      | Some d \<Rightarrow>
          (let si = sessionInfo (getSessionDisplayInfo env) sessionData in
           [\<lparr>key = ''session-id'', labelKey = ''user_details.sessions.session_id_column'',
              valueNode = Text (uid (payload d))\<rparr>,
            \<lparr>key = ''user'', labelKey = ''user_details.sessions.user'',
              valueNode = (case userId of
                             Some u \<Rightarrow> if u \<noteq> [] then UserName True u else Text ''-''
                           | None \<Rightarrow> Text ''-'')\<rparr>,
            \<lparr>key = ''applications'', labelKey = ''user_details.sessions.applications'',
              valueNode = applications (isBuiltInApplicationId env) sessionData\<rparr>,
            \<lparr>key = ''signed-in-at'', labelKey = ''user_details.sessions.signed_in_at'',
              valueNode = Text (signedInAt (toLocaleString env) sessionData)\<rparr>,
            \<lparr>key = ''ip'', labelKey = ''user_details.sessions.ip'',
              valueNode = Text (orDash (Option.bind si ip))\<rparr>,
            \<lparr>key = ''location'', labelKey = ''user_details.sessions.location_column'',
              valueNode = Text (sessionLocation si)\<rparr>,
            \<lparr>key = ''browser-name'', labelKey = ''user_details.sessions.browser_name'',
              valueNode = Text (orDash (Option.bind si browserName))\<rparr>,
            \<lparr>key = ''os-name'', labelKey = ''user_details.sessions.os_name'',
              valueNode = Text (orDash (Option.bind si osName))\<rparr>,
            \<lparr>key = ''device-model'', labelKey = ''user_details.sessions.device_model'',
              valueNode = Text (orDash (Option.bind si deviceModel))\<rparr>]))"


subsection \<open>Page state, effects and the handlers of the page\<close>

text \<open>
  The calls the page makes on its surroundings, in the order it makes them:
  \<^verbatim>\<open>setShowRevokeConfirmModal(b)\<close>, the global \<^verbatim>\<open>mutate(key)\<close> of \<^verbatim>\<open>useSWRConfig\<close>,
  the bound \<^verbatim>\<open>mutate\<close> of the single-session \<^verbatim>\<open>useSWR\<close> (\<^verbatim>\<open>mutateSession\<close>) and
  \<^verbatim>\<open>navigate(n)\<close>. \<open>RevokeCommand\<close> and \<open>SurfaceError\<close> are the calls of the
  confirmation modal (see below).
\<close>

datatype effect =
    SetShowRevokeConfirmModal bool
  | MutateGlobal string
  | MutateSession
  | Navigate int
  | RevokeCommand string string
  | SurfaceError

text \<open>
  The state of the page: \<^verbatim>\<open>useState(false)\<close> for the modal's visibility, and the log
  of the calls made so far, oldest first.
\<close>

record page_state =
  showRevokeConfirmModal :: bool
  effects :: "effect list"

definition emit :: "effect \<Rightarrow> 'a page_state_scheme \<Rightarrow> 'a page_state_scheme" where
  "emit e st = st\<lparr>effects := effects st @ [e]\<rparr>"

definition setShowRevokeConfirmModal :: "bool \<Rightarrow> 'a page_state_scheme \<Rightarrow> 'a page_state_scheme" where
  "setShowRevokeConfirmModal b st = emit (SetShowRevokeConfirmModal b) (st\<lparr>showRevokeConfirmModal := b\<rparr>)"

definition mutateGlobal :: "string \<Rightarrow> 'a page_state_scheme \<Rightarrow> 'a page_state_scheme" where
  "mutateGlobal k st = emit (MutateGlobal k) st"

definition mutateSession :: "'a page_state_scheme \<Rightarrow> 'a page_state_scheme" where
  "mutateSession st = emit MutateSession st"

definition navigate :: "int \<Rightarrow> 'a page_state_scheme \<Rightarrow> 'a page_state_scheme" where
  "navigate n st = emit (Navigate n) st"

text \<open>The \<^verbatim>\<open>onClick\<close> of the revoke menu item.\<close>

definition onClick :: "'a page_state_scheme \<Rightarrow> 'a page_state_scheme" where
  "onClick st = setShowRevokeConfirmModal True st"

text \<open>The \<^verbatim>\<open>onCancel\<close> handed to the modal.\<close>

definition onCancel :: "'a page_state_scheme \<Rightarrow> 'a page_state_scheme" where
  "onCancel st = setShowRevokeConfirmModal False st"

text \<open>
  The \<^verbatim>\<open>onRevokeCallback\<close> handed to the modal; \<open>u\<close> is the \<^verbatim>\<open>userId\<close> in scope:
  \<^verbatim>\<open>setShowRevokeConfirmModal(false); void mutateGlobal(`api/users/${userId}/sessions`); navigate(-1);\<close>
\<close>

definition onRevokeCallback :: "string \<Rightarrow> 'a page_state_scheme \<Rightarrow> 'a page_state_scheme" where
  "onRevokeCallback u st =
     (let st1 = setShowRevokeConfirmModal False st;
          st2 = mutateGlobal (''api/users/'' @ u @ ''/sessions'') st1
      in navigate (- 1) st2)"

subsection \<open>What the page renders from the route parameters\<close>

text \<open>
  The key handed to \<^verbatim>\<open>useSWR\<close>:
  \<^verbatim>\<open>userId && sessionId && `api/users/${userId}/sessions/${sessionId}`\<close>. A falsy key
  (\<^verbatim>\<open>undefined\<close> or the empty string) is \<open>None\<close>.
\<close>

definition swrKey :: "string option \<Rightarrow> string option \<Rightarrow> string option" where
  "swrKey userId sessionId =
     (case (userId, sessionId) of
        (Some u, Some s) \<Rightarrow>
          if u \<noteq> [] \<and> s \<noteq> [] then Some (''api/users/'' @ u @ ''/sessions/'' @ s) else None
      | _ \<Rightarrow> None)"

text \<open>
  \<^verbatim>\<open>useSWR(key)\<close> of the \<^verbatim>\<open>swr\<close> library, by its contract: no request is made and no
  data is returned for a falsy key; otherwise the data is the cache's entry for the key.
\<close>

definition useSWR :: "(string \<Rightarrow> 'd option) \<Rightarrow> string option \<Rightarrow> 'd option" where
  "useSWR cache k = (case k of None \<Rightarrow> None | Some k' \<Rightarrow> cache k')"

text \<open>
  \<^verbatim>\<open>{userId && sessionId && (<RevokeSessionConfirmModal userId sessionId isOpen ... />)}\<close>:
  the element, with its three data properties, or nothing.
\<close>

datatype modal_element = RevokeSessionConfirmModal string string bool

definition revokeModal ::
  "string option \<Rightarrow> string option \<Rightarrow> 'a page_state_scheme \<Rightarrow> modal_element option" where
  "revokeModal userId sessionId st =
     (case (userId, sessionId) of
        (Some u, Some s) \<Rightarrow>
          if u \<noteq> [] \<and> s \<noteq> []
          then Some (RevokeSessionConfirmModal u s (showRevokeConfirmModal st))
          else None
      | _ \<Rightarrow> None)"

subsection \<open>Events on the page\<close>

text \<open>
  A handler of the page transforms the page state; the state may carry more than the page's
  own fields (the state of the components it renders).
\<close>

type_synonym 'a handler = "'a page_state_scheme \<Rightarrow> 'a page_state_scheme"

text \<open>
  The behaviour of the rendered modal: given the element's properties, the \<^verbatim>\<open>onCancel\<close>
  and \<^verbatim>\<open>onRevokeCallback\<close> it was handed, and an event \<open>'e\<close> of its own, a handler.
\<close>

type_synonym ('e, 'a) modal = "modal_element \<Rightarrow> 'a handler \<Rightarrow> 'a handler \<Rightarrow> 'e \<Rightarrow> 'a handler"

datatype 'e event =
    ClickRevokeMenuItem
  | Retry
  | ToModal 'e

text \<open>
  One event on the page. The revoke menu item exists only inside \<^verbatim>\<open>{sessionData && ...}\<close>;
  \<^verbatim>\<open>onRetry={mutateSession}\<close> is the retry of the page shell; an event of the modal
  reaches the modal only when \<open>revokeModal\<close> renders it, with \<open>onCancel\<close> and
  \<open>onRevokeCallback\<close> of the page.
\<close>

fun pageStep ::
  "('e, 'a) modal \<Rightarrow> string option \<Rightarrow> string option \<Rightarrow> (string \<Rightarrow> 'g user_session option) \<Rightarrow>
   'e event \<Rightarrow> 'a handler" where
  "pageStep modal userId sessionId cache ClickRevokeMenuItem st =
     (case useSWR cache (swrKey userId sessionId) of
        Some sessionData \<Rightarrow> onClick st
      | None \<Rightarrow> st)"
| "pageStep modal userId sessionId cache Retry st = mutateSession st"
| "pageStep modal userId sessionId cache (ToModal e) st =
     (case revokeModal userId sessionId st of
        None \<Rightarrow> st
      | Some (RevokeSessionConfirmModal u s isOpen) \<Rightarrow>
          modal (RevokeSessionConfirmModal u s isOpen) onCancel (onRevokeCallback u) e st)"

fun run ::
  "('e, 'a) modal \<Rightarrow> string option \<Rightarrow> string option \<Rightarrow> (string \<Rightarrow> 'g user_session option) \<Rightarrow>
   'e event list \<Rightarrow> 'a handler" where
  "run modal userId sessionId cache [] st = st"
| "run modal userId sessionId cache (ev # evs) st =
     run modal userId sessionId cache evs (pageStep modal userId sessionId cache ev st)"

subsection \<open>The revocation coordinator\<close>

datatype backend_result = Acknowledged | Rejected

datatype modal_event =
    Cancel
  | Confirm
  | BackendReply backend_result

text \<open>The page state extended with the modal's own state: a revoke command is in flight.\<close>

record coordinator_state = page_state +
  executing :: bool

text \<open>
  Modelled from the spec: the component \<^verbatim>\<open>RevokeSessionConfirmModal\<close>, whose source is
  not among the files; the page only instantiates it. By the specification's state machine
  (\<open>Idle\<close>, \<open>ConfirmPending\<close>, \<open>Executing\<close>, then \<open>Succeeded\<close> or \<open>Failed\<close>): while the modal
  is open and no command is in flight, cancelling calls \<open>onCancel\<close> and confirming issues the
  revoke command with the two identifiers and enters \<open>Executing\<close>; a second confirm while
  \<open>Executing\<close> is a no-op; when the backend acknowledges, the success callback runs; when
  the backend reports an error, the error is surfaced, no callback runs and the command is
  no longer in flight. The reply of the backend is an event of its own, so that other
  events can arrive while the command is in flight.
\<close>

fun modalStep :: "(modal_event, \<lparr>executing :: bool\<rparr>) modal" where
  "modalStep (RevokeSessionConfirmModal u s isOpen) cancel revoked Cancel st =
     (if isOpen \<and> \<not> executing st then cancel st else st)"
| "modalStep (RevokeSessionConfirmModal u s isOpen) cancel revoked Confirm st =
     (if isOpen \<and> \<not> executing st then emit (RevokeCommand u s) (st\<lparr>executing := True\<rparr>) else st)"
| "modalStep (RevokeSessionConfirmModal u s isOpen) cancel revoked (BackendReply r) st =
     (if executing st
      then (case r of
              Acknowledged \<Rightarrow> revoked (st\<lparr>executing := False\<rparr>)
            | Rejected \<Rightarrow> emit SurfaceError (st\<lparr>executing := False\<rparr>))
      else st)"

text \<open>The page as mounted: the modal hidden, nothing called yet, no command in flight.\<close>

definition mounted :: coordinator_state where
  "mounted = \<lparr>showRevokeConfirmModal = False, effects = [], executing = False\<rparr>"

subsection \<open>The UI cookie guard\<close>

text \<open>
  A parsed cookie is a JSON value. An object is the list of its entries; \<open>map_of\<close> reads a
  property, and \<open>None\<close> is what JavaScript reads as \<^verbatim>\<open>undefined\<close>.
\<close>

datatype json =
    JNull
  | JBool bool
  | JNumber int
  | JString string
  | JArray "json list"
  | JObject "(string \<times> json) list"

text \<open>
  The part of the \<^verbatim>\<open>zod\<close> library the guard is built from. An issue is an invalid type
  at a path of property names. A schema maps the value read (\<open>None\<close> for \<^verbatim>\<open>undefined\<close>)
  to the list of its issues, or to the parsed value.
\<close>

datatype zod_issue = InvalidType "string list"

type_synonym zod_schema = "json option \<Rightarrow> zod_issue list + json option"

fun under :: "string \<Rightarrow> zod_issue \<Rightarrow> zod_issue" where
  "under k (InvalidType path) = InvalidType (k # path)"

text \<open>\<^verbatim>\<open>z.string()\<close>\<close>

fun z_string :: zod_schema where
  "z_string (Some (JString s)) = Inr (Some (JString s))"
| "z_string v = Inl [InvalidType []]"

text \<open>\<^verbatim>\<open>.optional()\<close>, which \<^verbatim>\<open>.partial()\<close> puts on every property of an object schema.\<close>

fun z_optional :: "zod_schema \<Rightarrow> zod_schema" where
  "z_optional sch None = Inr None"
| "z_optional sch (Some v) = sch (Some v)"

definition z_partial :: "(string \<times> zod_schema) list \<Rightarrow> (string \<times> zod_schema) list" where
  "z_partial shape = map (\<lambda>(k, sch). (k, z_optional sch)) shape"

text \<open>
  \<^verbatim>\<open>z.object(shape)\<close>: the input must be an object (not \<^verbatim>\<open>null\<close>, not an array); every
  property of the shape is read and parsed, the issues of all of them are collected under
  the property's name, and unknown properties are dropped from the result.
\<close>

fun z_object :: "(string \<times> zod_schema) list \<Rightarrow> zod_schema" where
  "z_object shape (Some (JObject obj)) =
     (let results = map (\<lambda>(k, sch). (k, sch (map_of obj k))) shape;
          issues = concat (map (\<lambda>(k, r). case r of Inl ps \<Rightarrow> map (under k) ps | Inr v \<Rightarrow> []) results)
      in if issues = []
         then Inr (Some (JObject
                (concat (map (\<lambda>(k, r). case r of Inr (Some v) \<Rightarrow> [(k, v)] | _ \<Rightarrow> []) results))))
         else Inl issues)"
| "z_object shape v = Inl [InvalidType []]"

definition logtoUiCookieGuard :: zod_schema where
  "logtoUiCookieGuard =
     z_object (z_partial
       [(''appId'', z_string), (''organizationId'', z_string), (''ui_locales'', z_string)])"

text \<open>\<^verbatim>\<open>guard.safeParse(data).success\<close>\<close>

definition accepts :: "zod_schema \<Rightarrow> json \<Rightarrow> bool" where
  "accepts sch data = (case sch (Some data) of Inr v \<Rightarrow> True | Inl issues \<Rightarrow> False)"

subsection \<open>Observations used in the statements\<close>

text \<open>The application names of a rendered node, in document order: identifier and \<open>isLink\<close>.\<close>

fun applicationNames :: "react_node \<Rightarrow> (string \<times> bool) list" where
  "applicationNames (ApplicationName a l) = [(a, l)]"
| "applicationNames (Fragment k cs) = concat (map applicationNames cs)"
| "applicationNames (Nodes cs) = concat (map applicationNames cs)"
| "applicationNames n = []"

text \<open>The calls a handler added to the log.\<close>

definition added :: "'a page_state_scheme \<Rightarrow> 'a page_state_scheme \<Rightarrow> effect list" where
  "added st st' = drop (length (effects st)) (effects st')"

text \<open>
  The keys handed to the global \<^verbatim>\<open>mutate\<close>, the arguments of \<^verbatim>\<open>navigate\<close> and the
  revoke commands issued, each as they appear in a log.
\<close>

fun mutatedKeys :: "effect list \<Rightarrow> string list" where
  "mutatedKeys [] = []"
| "mutatedKeys (MutateGlobal k # es) = k # mutatedKeys es"
| "mutatedKeys (e # es) = mutatedKeys es"

fun navigations :: "effect list \<Rightarrow> int list" where
  "navigations [] = []"
| "navigations (Navigate n # es) = n # navigations es"
| "navigations (e # es) = navigations es"

fun revokeCommands :: "effect list \<Rightarrow> (string \<times> string) list" where
  "revokeCommands [] = []"
| "revokeCommands (RevokeCommand u s # es) = (u, s) # revokeCommands es"
| "revokeCommands (e # es) = revokeCommands es"

text \<open>The calls that the retries among a list of events make.\<close>

fun retries :: "'e event list \<Rightarrow> effect list" where
  "retries [] = []"
| "retries (Retry # evs) = MutateSession # retries evs"
| "retries (ev # evs) = retries evs"

text \<open>A property of a parsed cookie object is acceptable: absent, or a string.\<close>

definition absentOrString :: "(string \<times> json) list \<Rightarrow> string \<Rightarrow> bool" where
  "absentOrString obj k =
     (case map_of obj k of None \<Rightarrow> True | Some (JString s) \<Rightarrow> True | Some v \<Rightarrow> False)"


section \<open>Properties\<close>

subsection \<open>Timestamps\<close>

text \<open>
  C3. \<^verbatim>\<open>formatTimestamp\<close> returns the placeholder \<open>-\<close> when the value is absent or
  \<open>0\<close>; a value strictly between \<open>0\<close> and \<open>10^12\<close> is formatted as the millisecond
  instant \<open>ts * 1000\<close>; a value of at least \<open>10^12\<close> is formatted as it is. The function
  has no failing branch: it yields a string on every input.
\<close>

theorem formatTimestamp_cases:
  "formatTimestamp fmt None = ''-''
   \<and> formatTimestamp fmt (Some 0) = ''-''
   \<and> (0 < ts \<and> ts < 10 ^ 12 \<longrightarrow> formatTimestamp fmt (Some ts) = fmt (ts * 1000))
   \<and> (10 ^ 12 \<le> ts \<longrightarrow> formatTimestamp fmt (Some ts) = fmt ts)"
  by (simp add: formatTimestamp_def timestamp_def)

theorem formatTimestamp_cases_witness:
  "(0 :: int) < 1700000000 \<and> (1700000000 :: int) < 10 ^ 12
   \<and> formatTimestamp (\<lambda>t. if t < 1700000000000 then ''before'' else ''after'') (Some 1700000000)
       = ''after''
   \<and> (10 :: int) ^ 12 \<le> 1699999999999
   \<and> formatTimestamp (\<lambda>t. if t < 1700000000000 then ''before'' else ''after'')
        (Some 1699999999999) = ''before''"
  using formatTimestamp_cases
          [of "\<lambda>t. if t < 1700000000000 then ''before'' else ''after''" 1700000000]
        formatTimestamp_cases
          [of "\<lambda>t. if t < 1700000000000 then ''before'' else ''after''" 1699999999999]
  by simp

text \<open>
  C4, as claimed: for non-negative \<open>ts1 \<le> ts2\<close> the instants are in the same order. This
  fails across the threshold: \<open>10^12 - 1\<close> is read as seconds and becomes an instant near
  \<open>10^15\<close>, while \<open>10^12\<close> is read as milliseconds and stays \<open>10^12\<close>.
\<close>

theorem timestamp_order_counterexample:
  "(0 :: int) \<le> 999999999999 \<and> (999999999999 :: int) \<le> 1000000000000
   \<and> \<not> timestamp 999999999999 \<le> timestamp 1000000000000"
  by (simp add: timestamp_def)

text \<open>
  C4, amended: for non-negative \<open>ts1 \<le> ts2\<close> the instants are in the same order exactly
  when the pair does not straddle the threshold with \<open>ts2\<close> below \<open>ts1 * 1000\<close>; so they
  are whenever both values are below \<open>10^12\<close> or both are at least \<open>10^12\<close>.
\<close>

theorem timestamp_order:
  "0 \<le> ts1 \<Longrightarrow> ts1 \<le> ts2 \<Longrightarrow>
   (timestamp ts1 \<le> timestamp ts2) =
     (\<not> (ts1 < 10 ^ 12 \<and> 10 ^ 12 \<le> ts2 \<and> ts2 < ts1 * 1000))"
  by (auto simp add: timestamp_def)

theorem timestamp_order_witness:
  "(0 :: int) \<le> 1700000000 \<and> (1700000000 :: int) \<le> 1700000060
   \<and> timestamp 1700000000 \<le> timestamp 1700000060
   \<and> (0 :: int) \<le> 1700000000000 \<and> (1700000000000 :: int) \<le> 1700000060000
   \<and> timestamp 1700000000000 \<le> timestamp 1700000060000"
  using timestamp_order [of 1700000000 1700000060]
        timestamp_order [of 1700000000000 1700000060000]
  by simp

subsection \<open>Logs of calls\<close>

lemma mutatedKeys_append: "mutatedKeys (xs @ ys) = mutatedKeys xs @ mutatedKeys ys"
  by (induction xs rule: mutatedKeys.induct) simp_all

lemma navigations_append: "navigations (xs @ ys) = navigations xs @ navigations ys"
  by (induction xs rule: navigations.induct) simp_all

lemma revokeCommands_append: "revokeCommands (xs @ ys) = revokeCommands xs @ revokeCommands ys"
  by (induction xs rule: revokeCommands.induct) simp_all

lemma effects_emit: "effects (emit e st) = effects st @ [e]"
  by (simp add: emit_def)

lemma more_emit: "page_state.more (emit e st) = page_state.more st"
  by (simp add: emit_def)

lemma show_emit: "showRevokeConfirmModal (emit e st) = showRevokeConfirmModal st"
  by (simp add: emit_def)

lemma added_append: "effects st' = effects st @ es \<Longrightarrow> added st st' = es"
  by (simp add: added_def)

subsection \<open>The success callback\<close>

lemma onRevokeCallback_effects:
  "effects (onRevokeCallback u st) =
     effects st @
       [SetShowRevokeConfirmModal False, MutateGlobal (''api/users/'' @ u @ ''/sessions''),
        Navigate (- 1)]"
  by (simp add: onRevokeCallback_def navigate_def mutateGlobal_def setShowRevokeConfirmModal_def
      effects_emit Let_def)

lemma onRevokeCallback_show: "showRevokeConfirmModal (onRevokeCallback u st) = False"
  by (simp add: onRevokeCallback_def navigate_def mutateGlobal_def setShowRevokeConfirmModal_def
      emit_def Let_def)

lemma onRevokeCallback_calls:
  "added st (onRevokeCallback u st) =
     [SetShowRevokeConfirmModal False, MutateGlobal (''api/users/'' @ u @ ''/sessions''),
      Navigate (- 1)]
   \<and> showRevokeConfirmModal (onRevokeCallback u st) = False
   \<and> mutatedKeys (added st (onRevokeCallback u st)) = [''api/users/'' @ u @ ''/sessions'']
   \<and> navigations (added st (onRevokeCallback u st)) = [- 1]"
  by (simp add: added_append [OF onRevokeCallback_effects] onRevokeCallback_show)

text \<open>
  C7. The only cache key the success callback invalidates is the session-list key of the
  user. That key is not the key of the single-session entry, whatever the session
  identifier, and the callback never calls the single-session \<^verbatim>\<open>mutate\<close>.
\<close>

theorem onRevokeCallback_frame:
  "mutatedKeys (added st (onRevokeCallback u st)) = [''api/users/'' @ u @ ''/sessions'']
   \<and> MutateSession \<notin> set (added st (onRevokeCallback u st))
   \<and> swrKey (Some u) (Some s) \<noteq> Some (''api/users/'' @ u @ ''/sessions'')"
  by (simp add: added_append [OF onRevokeCallback_effects] swrKey_def)

subsection \<open>The page without both identifiers\<close>

lemma revokeModal_None: "\<not> (truthy uo \<and> truthy so) \<Longrightarrow> revokeModal uo so st = None"
  by (cases uo; cases so) (auto simp: revokeModal_def)

lemma swrKey_None: "\<not> (truthy uo \<and> truthy so) \<Longrightarrow> swrKey uo so = None"
  by (cases uo; cases so) (auto simp: swrKey_def)

lemma pageStep_missing:
  assumes "\<not> (truthy uo \<and> truthy so)"
  shows "pageStep modal uo so cache ev st = st\<lparr>effects := effects st @ retries [ev]\<rparr>"
  using revokeModal_None [OF assms, of st] swrKey_None [OF assms]
  by (cases ev) (simp_all add: useSWR_def mutateSession_def emit_def)

lemma retries_Cons: "retries (ev # evs) = retries [ev] @ retries evs"
  by (cases ev) simp_all

lemma run_missing:
  assumes "\<not> (truthy uo \<and> truthy so)"
  shows "run modal uo so cache evs st = st\<lparr>effects := effects st @ retries evs\<rparr>"
proof (induction evs arbitrary: st)
  case Nil
  show ?case by simp
next
  case (Cons ev evs)
  have "run modal uo so cache (ev # evs) st =
          run modal uo so cache evs (st\<lparr>effects := effects st @ retries [ev]\<rparr>)"
    by (simp add: pageStep_missing [OF assms])
  also have "\<dots> = st\<lparr>effects := (effects st @ retries [ev]) @ retries evs\<rparr>"
    by (simp add: Cons.IH)
  also have "\<dots> = st\<lparr>effects := effects st @ retries (ev # evs)\<rparr>"
    using retries_Cons [of ev evs] by simp
  finally show ?case .
qed

lemma revokeCommands_retries: "revokeCommands (retries evs) = []"
  by (induction evs rule: retries.induct) simp_all

text \<open>
  C5. When \<^verbatim>\<open>userId\<close> or \<^verbatim>\<open>sessionId\<close> is missing (\<^verbatim>\<open>undefined\<close> or empty), the page
  renders no revoke modal and hands \<^verbatim>\<open>useSWR\<close> no key, so no session is fetched. Whatever
  the modal would do and whatever events arrive, the modal is never reached: its state
  stays as it was (\<open>Executing\<close> is not entered), no revoke command is issued, and the only
  calls made are those of the retries.
\<close>

theorem missing_identifier_no_revoke:
  "\<not> (truthy uo \<and> truthy so) \<Longrightarrow>
   revokeModal uo so st = None
   \<and> swrKey uo so = None
   \<and> useSWR cache (swrKey uo so) = None
   \<and> run modal uo so cache evs st = st\<lparr>effects := effects st @ retries evs\<rparr>
   \<and> page_state.more (run modal uo so cache evs st) = page_state.more st
   \<and> revokeCommands (added st (run modal uo so cache evs st)) = []"
proof -
  assume missing: "\<not> (truthy uo \<and> truthy so)"
  have r: "run modal uo so cache evs st = st\<lparr>effects := effects st @ retries evs\<rparr>"
    by (rule run_missing [OF missing])
  have "added st (run modal uo so cache evs st) = retries evs"
    by (simp add: r added_def)
  then have "revokeCommands (added st (run modal uo so cache evs st)) = []"
    by (simp add: revokeCommands_retries)
  moreover have "page_state.more (run modal uo so cache evs st) = page_state.more st"
    by (simp add: r)
  moreover have "useSWR cache (swrKey uo so) = None"
    by (simp add: swrKey_None [OF missing] useSWR_def)
  ultimately show ?thesis
    using r revokeModal_None [OF missing] swrKey_None [OF missing] by simp
qed

theorem missing_identifier_no_revoke_witness:
  "\<not> (truthy (Some ''u1'') \<and> truthy (Some ''''))
   \<and> revokeModal (Some ''u1'') (Some '''') mounted = None
   \<and> swrKey (Some ''u1'') (Some '''') = None
   \<and> executing
        (run modalStep (Some ''u1'') (Some '''')
           (\<lambda>k. Some \<lparr>payload = \<lparr>uid = ''s1'', loginTs = None, authorizations = [(''app1'', ())]\<rparr>\<rparr>)
           [ClickRevokeMenuItem, ToModal Confirm, ToModal (BackendReply Acknowledged), Retry]
           mounted) = False
   \<and> effects
        (run modalStep (Some ''u1'') (Some '''')
           (\<lambda>k. Some \<lparr>payload = \<lparr>uid = ''s1'', loginTs = None, authorizations = [(''app1'', ())]\<rparr>\<rparr>)
           [ClickRevokeMenuItem, ToModal Confirm, ToModal (BackendReply Acknowledged), Retry]
           mounted) = [MutateSession]"
  using missing_identifier_no_revoke
          [of "Some ''u1''" "Some ''''" mounted
              "\<lambda>k. Some \<lparr>payload = \<lparr>uid = ''s1'', loginTs = None, authorizations = [(''app1'', ())]\<rparr>\<rparr>"
              modalStep
              "[ClickRevokeMenuItem, ToModal Confirm, ToModal (BackendReply Acknowledged), Retry]"]
  by (simp add: mounted_def swrKey_def useSWR_def revokeModal_def mutateSession_def emit_def)

subsection \<open>The paths of the coordinator\<close>

lemma pageStep_hands_callbacks:
  "u \<noteq> [] \<Longrightarrow> s \<noteq> [] \<Longrightarrow>
   pageStep modal (Some u) (Some s) cache (ToModal e) st =
     modal (RevokeSessionConfirmModal u s (showRevokeConfirmModal st)) onCancel
       (onRevokeCallback u) e st"
  by (simp add: revokeModal_def)

lemma acknowledged_step:
  "u \<noteq> [] \<Longrightarrow> s \<noteq> [] \<Longrightarrow> executing st \<Longrightarrow>
   pageStep modalStep (Some u) (Some s) cache (ToModal (BackendReply Acknowledged)) st =
     onRevokeCallback u (st\<lparr>executing := False\<rparr>)"
  by (simp add: revokeModal_def)

lemma executing_onRevokeCallback: "executing (onRevokeCallback u st) = executing st"
  by (simp add: onRevokeCallback_def navigate_def mutateGlobal_def setShowRevokeConfirmModal_def
      emit_def Let_def)

lemma happy_path:
  assumes "u \<noteq> []" "s \<noteq> []" "cache (''api/users/'' @ u @ ''/sessions/'' @ s) = Some d"
  shows "effects
     (run modalStep (Some u) (Some s) cache
        [ClickRevokeMenuItem, ToModal Confirm, ToModal (BackendReply Acknowledged)] mounted)
   = [SetShowRevokeConfirmModal True, RevokeCommand u s, SetShowRevokeConfirmModal False,
      MutateGlobal (''api/users/'' @ u @ ''/sessions''), Navigate (- 1)]"
  using assms
  by (simp add: mounted_def swrKey_def useSWR_def revokeModal_def onClick_def
      onRevokeCallback_def navigate_def mutateGlobal_def setShowRevokeConfirmModal_def emit_def)

text \<open>
  C1. With both identifiers given, the page hands the modal \<open>onRevokeCallback\<close> as its
  success callback. When the backend acknowledges a revoke command in flight, handling the
  reply makes exactly three calls, in this order: it closes the confirmation modal,
  invalidates the session-list key of this user, and navigates back one step; the list key
  is invalidated exactly once and the navigation happens exactly once. The whole happy path
  from the mounted page (open the modal, confirm, acknowledgement) makes these calls after
  the revoke command and no other invalidation or navigation.
\<close>

theorem acknowledged_revoke_calls:
  "u \<noteq> [] \<Longrightarrow> s \<noteq> [] \<Longrightarrow>
   pageStep modal (Some u) (Some s) cache (ToModal e) st' =
     modal (RevokeSessionConfirmModal u s (showRevokeConfirmModal st')) onCancel
       (onRevokeCallback u) e st'
   \<and> (executing st \<longrightarrow>
        added st (pageStep modalStep (Some u) (Some s) cache
                    (ToModal (BackendReply Acknowledged)) st) =
          [SetShowRevokeConfirmModal False, MutateGlobal (''api/users/'' @ u @ ''/sessions''),
           Navigate (- 1)]
        \<and> mutatedKeys (added st (pageStep modalStep (Some u) (Some s) cache
                    (ToModal (BackendReply Acknowledged)) st)) =
            [''api/users/'' @ u @ ''/sessions'']
        \<and> navigations (added st (pageStep modalStep (Some u) (Some s) cache
                    (ToModal (BackendReply Acknowledged)) st)) = [- 1]
        \<and> showRevokeConfirmModal (pageStep modalStep (Some u) (Some s) cache
                    (ToModal (BackendReply Acknowledged)) st) = False
        \<and> executing (pageStep modalStep (Some u) (Some s) cache
                    (ToModal (BackendReply Acknowledged)) st) = False)
   \<and> (cache (''api/users/'' @ u @ ''/sessions/'' @ s) = Some d \<longrightarrow>
        effects (run modalStep (Some u) (Some s) cache
                   [ClickRevokeMenuItem, ToModal Confirm, ToModal (BackendReply Acknowledged)]
                   mounted) =
          [SetShowRevokeConfirmModal True, RevokeCommand u s, SetShowRevokeConfirmModal False,
           MutateGlobal (''api/users/'' @ u @ ''/sessions''), Navigate (- 1)])"
proof -
  assume u: "u \<noteq> []" and s: "s \<noteq> []"
  let ?reply = "pageStep modalStep (Some u) (Some s) cache (ToModal (BackendReply Acknowledged)) st"
  have hand: "pageStep modal (Some u) (Some s) cache (ToModal e) st' =
     modal (RevokeSessionConfirmModal u s (showRevokeConfirmModal st')) onCancel
       (onRevokeCallback u) e st'"
    by (rule pageStep_hands_callbacks [OF u s])
  have reply: "executing st \<longrightarrow>
        added st ?reply =
          [SetShowRevokeConfirmModal False, MutateGlobal (''api/users/'' @ u @ ''/sessions''),
           Navigate (- 1)]
        \<and> mutatedKeys (added st ?reply) = [''api/users/'' @ u @ ''/sessions'']
        \<and> navigations (added st ?reply) = [- 1]
        \<and> showRevokeConfirmModal ?reply = False
        \<and> executing ?reply = False"
  proof
    assume ex: "executing st"
    have step: "?reply = onRevokeCallback u (st\<lparr>executing := False\<rparr>)"
      by (rule acknowledged_step [OF u s ex])
    have "effects ?reply = effects st @
        [SetShowRevokeConfirmModal False, MutateGlobal (''api/users/'' @ u @ ''/sessions''),
         Navigate (- 1)]"
      unfolding step by (simp add: onRevokeCallback_effects)
    then have "added st ?reply =
        [SetShowRevokeConfirmModal False, MutateGlobal (''api/users/'' @ u @ ''/sessions''),
         Navigate (- 1)]"
      by (rule added_append)
    moreover have "showRevokeConfirmModal ?reply = False"
      unfolding step by (simp add: onRevokeCallback_show)
    moreover have "executing ?reply = False"
      unfolding step by (simp add: executing_onRevokeCallback)
    ultimately show "added st ?reply =
          [SetShowRevokeConfirmModal False, MutateGlobal (''api/users/'' @ u @ ''/sessions''),
           Navigate (- 1)]
        \<and> mutatedKeys (added st ?reply) = [''api/users/'' @ u @ ''/sessions'']
        \<and> navigations (added st ?reply) = [- 1]
        \<and> showRevokeConfirmModal ?reply = False
        \<and> executing ?reply = False"
      by simp
  qed
  have path: "cache (''api/users/'' @ u @ ''/sessions/'' @ s) = Some d \<longrightarrow>
        effects (run modalStep (Some u) (Some s) cache
                   [ClickRevokeMenuItem, ToModal Confirm, ToModal (BackendReply Acknowledged)]
                   mounted) =
          [SetShowRevokeConfirmModal True, RevokeCommand u s, SetShowRevokeConfirmModal False,
           MutateGlobal (''api/users/'' @ u @ ''/sessions''), Navigate (- 1)]"
    using happy_path [OF u s] by blast
  from hand reply path show ?thesis by (intro conjI)
qed

theorem acknowledged_revoke_calls_witness:
  "''u1'' \<noteq> [] \<and> ''s1'' \<noteq> []
   \<and> executing \<lparr>showRevokeConfirmModal = True, effects = [RevokeCommand ''u1'' ''s1''],
                 executing = True\<rparr>
   \<and> added \<lparr>showRevokeConfirmModal = True, effects = [RevokeCommand ''u1'' ''s1''],
             executing = True\<rparr>
        (pageStep modalStep (Some ''u1'') (Some ''s1'')
           (\<lambda>k. Some \<lparr>payload = \<lparr>uid = ''s1'', loginTs = None, authorizations = [(''app1'', ())]\<rparr>\<rparr>)
           (ToModal (BackendReply Acknowledged))
           \<lparr>showRevokeConfirmModal = True, effects = [RevokeCommand ''u1'' ''s1''],
             executing = True\<rparr>)
       = [SetShowRevokeConfirmModal False, MutateGlobal ''api/users/u1/sessions'', Navigate (- 1)]
   \<and> (\<lambda>k. Some \<lparr>payload = \<lparr>uid = ''s1'', loginTs = None, authorizations = [(''app1'', ())]\<rparr>\<rparr>)
         (''api/users/'' @ ''u1'' @ ''/sessions/'' @ ''s1'')
       = Some \<lparr>payload = \<lparr>uid = ''s1'', loginTs = None, authorizations = [(''app1'', ())]\<rparr>\<rparr>
   \<and> effects
        (run modalStep (Some ''u1'') (Some ''s1'')
           (\<lambda>k. Some \<lparr>payload = \<lparr>uid = ''s1'', loginTs = None, authorizations = [(''app1'', ())]\<rparr>\<rparr>)
           [ClickRevokeMenuItem, ToModal Confirm, ToModal (BackendReply Acknowledged)] mounted)
       = [SetShowRevokeConfirmModal True, RevokeCommand ''u1'' ''s1'',
          SetShowRevokeConfirmModal False, MutateGlobal ''api/users/u1/sessions'', Navigate (- 1)]"
  using acknowledged_revoke_calls
          [of "''u1''" "''s1''" modalStep
              "\<lambda>k. Some \<lparr>payload = \<lparr>uid = ''s1'', loginTs = None, authorizations = [(''app1'', ())]\<rparr>\<rparr>"
              Confirm mounted
              "\<lparr>showRevokeConfirmModal = True, effects = [RevokeCommand ''u1'' ''s1''],
                executing = True\<rparr>"
              "\<lparr>payload = \<lparr>uid = ''s1'', loginTs = None, authorizations = [(''app1'', ())]\<rparr>\<rparr>"]
  by simp

lemma pageStep_effects:
  "\<exists>es. effects (pageStep modalStep uo so cache ev st) = effects st @ es
     \<and> (ev \<noteq> ToModal (BackendReply Acknowledged) \<longrightarrow> mutatedKeys es = [] \<and> navigations es = [])"
proof (cases ev)
  case ClickRevokeMenuItem
  then show ?thesis
    by (simp add: onClick_def setShowRevokeConfirmModal_def effects_emit split: option.splits)
next
  case Retry
  then show ?thesis by (simp add: mutateSession_def effects_emit)
next
  case (ToModal e)
  show ?thesis
  proof (cases e)
    case Cancel
    with ToModal show ?thesis
      by (simp add: onCancel_def setShowRevokeConfirmModal_def effects_emit
          split: option.splits modal_element.splits)
  next
    case Confirm
    with ToModal show ?thesis
      by (simp add: effects_emit split: option.splits modal_element.splits)
  next
    case (BackendReply r)
    with ToModal show ?thesis
      by (cases r) (simp_all add: effects_emit onRevokeCallback_effects
          split: option.splits modal_element.splits)
  qed
qed

lemma run_without_acknowledgement:
  "ToModal (BackendReply Acknowledged) \<notin> set evs \<Longrightarrow>
   mutatedKeys (effects (run modalStep uo so cache evs st)) = mutatedKeys (effects st)
   \<and> navigations (effects (run modalStep uo so cache evs st)) = navigations (effects st)"
proof (induction evs arbitrary: st)
  case Nil
  then show ?case by simp
next
  case (Cons ev evs)
  from Cons.prems have ev: "ev \<noteq> ToModal (BackendReply Acknowledged)"
    and rest: "ToModal (BackendReply Acknowledged) \<notin> set evs" by auto
  obtain es where es: "effects (pageStep modalStep uo so cache ev st) = effects st @ es"
    "mutatedKeys es = []" "navigations es = []"
    using pageStep_effects [of uo so cache ev st] ev by blast
  show ?case
    using Cons.IH [OF rest, of "pageStep modalStep uo so cache ev st"] es
    by (simp add: mutatedKeys_append navigations_append)
qed

text \<open>
  C2. When the backend rejects the revoke command, handling the reply invalidates no cache
  key and does not navigate. More generally, from the mounted page, a sequence of events
  without an acknowledgement of the backend leaves the log free of invalidations and
  navigations: the list key is invalidated only after an acknowledgement, never before
  one and never unconditionally.
\<close>

theorem failed_revoke_no_invalidation:
  "mutatedKeys (added st (pageStep modalStep uo so cache (ToModal (BackendReply Rejected)) st)) = []
   \<and> navigations (added st (pageStep modalStep uo so cache (ToModal (BackendReply Rejected)) st)) = []
   \<and> (ToModal (BackendReply Acknowledged) \<notin> set evs \<longrightarrow>
        mutatedKeys (effects (run modalStep uo so cache evs mounted)) = []
        \<and> navigations (effects (run modalStep uo so cache evs mounted)) = [])"
proof -
  obtain es where es:
    "effects (pageStep modalStep uo so cache (ToModal (BackendReply Rejected)) st) = effects st @ es"
    "mutatedKeys es = []" "navigations es = []"
    using pageStep_effects [of uo so cache "ToModal (BackendReply Rejected)" st] by auto
  have "added st (pageStep modalStep uo so cache (ToModal (BackendReply Rejected)) st) = es"
    using es(1) by (rule added_append)
  moreover have "ToModal (BackendReply Acknowledged) \<notin> set evs \<longrightarrow>
        mutatedKeys (effects (run modalStep uo so cache evs mounted)) = []
        \<and> navigations (effects (run modalStep uo so cache evs mounted)) = []"
    using run_without_acknowledgement [of evs uo so cache mounted] by (simp add: mounted_def)
  ultimately show ?thesis using es by simp
qed

theorem failed_revoke_no_invalidation_witness:
  "ToModal (BackendReply Acknowledged)
     \<notin> set [ClickRevokeMenuItem, ToModal Confirm, ToModal (BackendReply Rejected)]
   \<and> effects
        (run modalStep (Some ''u1'') (Some ''s1'')
           (\<lambda>k. Some \<lparr>payload = \<lparr>uid = ''s1'', loginTs = None, authorizations = [(''app1'', ())]\<rparr>\<rparr>)
           [ClickRevokeMenuItem, ToModal Confirm, ToModal (BackendReply Rejected)] mounted)
       = [SetShowRevokeConfirmModal True, RevokeCommand ''u1'' ''s1'', SurfaceError]
   \<and> mutatedKeys (effects
        (run modalStep (Some ''u1'') (Some ''s1'')
           (\<lambda>k. Some \<lparr>payload = \<lparr>uid = ''s1'', loginTs = None, authorizations = [(''app1'', ())]\<rparr>\<rparr>)
           [ClickRevokeMenuItem, ToModal Confirm, ToModal (BackendReply Rejected)] mounted)) = []
   \<and> navigations (effects
        (run modalStep (Some ''u1'') (Some ''s1'')
           (\<lambda>k. Some \<lparr>payload = \<lparr>uid = ''s1'', loginTs = None, authorizations = [(''app1'', ())]\<rparr>\<rparr>)
           [ClickRevokeMenuItem, ToModal Confirm, ToModal (BackendReply Rejected)] mounted)) = []"
  using failed_revoke_no_invalidation
          [of mounted "Some ''u1''" "Some ''s1''"
              "\<lambda>k. Some \<lparr>payload = \<lparr>uid = ''s1'', loginTs = None, authorizations = [(''app1'', ())]\<rparr>\<rparr>"
              "[ClickRevokeMenuItem, ToModal Confirm, ToModal (BackendReply Rejected)]"]
  by (simp add: mounted_def swrKey_def useSWR_def revokeModal_def onClick_def
      setShowRevokeConfirmModal_def emit_def)

subsection \<open>Header title\<close>



subsection \<open>Authorized applications\<close>

lemma createdKeys_set: "set (createdKeys ks es) = set ks \<union> fst ` set es"
  by (induction ks es rule: createdKeys.induct) auto

lemma createdKeys_distinct: "distinct ks \<Longrightarrow> distinct (createdKeys ks es)"
  by (induction ks es rule: createdKeys.induct) auto

lemma createdKeys_fresh:
  "distinct (ks @ map fst es) \<Longrightarrow> createdKeys ks es = ks @ map fst es"
  by (induction ks es rule: createdKeys.induct) auto

lemma Object_keys_set: "set (Object_keys obj) = fst ` set obj"
  by (auto simp add: Object_keys_def Let_def createdKeys_set)

lemma Object_keys_distinct: "distinct (Object_keys obj)"
  by (auto simp add: Object_keys_def Let_def createdKeys_distinct)

lemma Object_keys_empty: "(Object_keys obj = []) = (obj = [])"
  using Object_keys_set [of obj] by (metis image_is_empty set_empty)

lemma Object_keys_no_index:
  "list_all (\<lambda>k. \<not> isArrayIndex k) (map fst obj) \<Longrightarrow> Object_keys obj = createdKeys [] obj"
proof -
  assume "list_all (\<lambda>k. \<not> isArrayIndex k) (map fst obj)"
  then have none: "\<forall>k \<in> set (createdKeys [] obj). \<not> isArrayIndex k"
    by (auto simp add: createdKeys_set list_all_iff)
  then have "filter isArrayIndex (createdKeys [] obj) = []"
    and "filter (\<lambda>k. \<not> isArrayIndex k) (createdKeys [] obj) = createdKeys [] obj"
    by (simp_all add: filter_empty_conv)
  then show ?thesis by (simp add: Object_keys_def Let_def)
qed

lemma applicationNames_fragments:
  "concat (map (\<lambda>x. applicationNames (applicationFragment isB x)) (enumerate n ks)) =
     map (\<lambda>k. (k, \<not> isB k)) ks"
  by (induction ks arbitrary: n) (simp_all add: applicationFragment_def)

lemma applications_Some:
  "authorizations (payload d) \<noteq> [] \<Longrightarrow>
   applications isB (Some d) =
     Nodes (map (applicationFragment isB) (enumerate 0 (Object_keys (authorizations (payload d)))))"
  by (simp add: applications_def Object_keys_empty)

lemma applicationNames_applications:
  "authorizations (payload d) \<noteq> [] \<Longrightarrow>
   applicationNames (applications isB (Some d)) =
     map (\<lambda>k. (k, \<not> isB k)) (Object_keys (authorizations (payload d)))"
  by (simp add: applications_Some comp_def applicationNames_fragments)

text \<open>
  C6, as claimed: the application names follow the insertion order of the keys. With the
  keys inserted as \<open>b\<close>, \<open>2\<close>, \<open>10\<close>, \<open>1\<close>, pairwise distinct, the names rendered are
  \<open>1\<close>, \<open>2\<close>, \<open>10\<close>, \<open>b\<close>: \<^verbatim>\<open>Object.keys\<close> yields the array indices first, ascending.
\<close>

theorem applications_order_counterexample:
  "distinct (map fst [(''b'', ()), (''2'', ()), (''10'', ()), (''1'', ())])
   \<and> map fst (applicationNames (applications (\<lambda>k. False)
        (Some \<lparr>payload = \<lparr>uid = ''s1'', loginTs = None,
                 authorizations = [(''b'', ()), (''2'', ()), (''10'', ()), (''1'', ())]\<rparr>\<rparr>)))
       = [''1'', ''2'', ''10'', ''b'']
   \<and> map fst (applicationNames (applications (\<lambda>k. False)
        (Some \<lparr>payload = \<lparr>uid = ''s1'', loginTs = None,
                 authorizations = [(''b'', ()), (''2'', ()), (''10'', ()), (''1'', ())]\<rparr>\<rparr>)))
       \<noteq> map fst [(''b'', ()), (''2'', ()), (''10'', ()), (''1'', ())]"
  by (simp add: applications_def Object_keys_def isArrayIndex_def decimal_def digitValue_def
      applicationFragment_def enumerate_eq_zip)

lemma Object_keys_length: "length (Object_keys obj) = length (remdups (map fst obj))"
proof -
  have "length (Object_keys obj) = card (set (Object_keys obj))"
    by (simp add: distinct_card [OF Object_keys_distinct])
  also have "\<dots> = card (set (map fst obj))"
    by (simp add: Object_keys_set)
  finally show ?thesis by (simp add: length_remdups_card_conv)
qed

lemma applicationNames_ids:
  "map fst (applicationNames (applications isB (Some d))) = Object_keys (authorizations (payload d))"
proof (cases "authorizations (payload d) = []")
  case True
  then show ?thesis by (simp add: applications_def Object_keys_def)
next
  case False
  then show ?thesis by (simp add: applicationNames_applications comp_def)
qed

text \<open>
  C6, amended: for a present session, \<^verbatim>\<open>applications\<close> renders exactly one application name
  per distinct key of \<^verbatim>\<open>authorizations\<close>, no identifier twice, in the order of
  \<^verbatim>\<open>Object.keys\<close>: the keys that are array indices first, in ascending numeric order, then
  the other keys in insertion order; so in insertion order when no key is an array index.
  Each name is a link exactly when \<^verbatim>\<open>isBuiltInApplicationId\<close> is false for its key. When
  the session is absent or \<^verbatim>\<open>authorizations\<close> has no key, the value is the placeholder
  \<open>-\<close>, not an empty array.
\<close>

theorem applications_references:
  "applications isB (None :: 'g user_session option) = Text ''-''
   \<and> (authorizations (payload (d :: 'g user_session)) = [] \<longrightarrow>
        applications isB (Some d) = Text ''-'')
   \<and> (authorizations (payload d) \<noteq> [] \<longrightarrow>
        (\<exists>cs. applications isB (Some d) = Nodes cs
              \<and> length cs = length (remdups (map fst (authorizations (payload d)))))
        \<and> applicationNames (applications isB (Some d)) =
            map (\<lambda>k. (k, \<not> isB k)) (Object_keys (authorizations (payload d))))
   \<and> map fst (applicationNames (applications isB (Some d))) =
        sort_key decimal (filter isArrayIndex (createdKeys [] (authorizations (payload d))))
        @ filter (\<lambda>k. \<not> isArrayIndex k) (createdKeys [] (authorizations (payload d)))
   \<and> distinct (map fst (applicationNames (applications isB (Some d))))
   \<and> set (map fst (applicationNames (applications isB (Some d)))) =
        fst ` set (authorizations (payload d))
   \<and> (list_all (\<lambda>k. \<not> isArrayIndex k) (map fst (authorizations (payload d))) \<longrightarrow>
        map fst (applicationNames (applications isB (Some d))) =
          createdKeys [] (authorizations (payload d)))
   \<and> (list_all (\<lambda>k. \<not> isArrayIndex k) (map fst (authorizations (payload d)))
        \<and> distinct (map fst (authorizations (payload d))) \<longrightarrow>
        map fst (applicationNames (applications isB (Some d))) =
          map fst (authorizations (payload d)))"
proof -
  let ?obj = "authorizations (payload d)"
  let ?ids = "map fst (applicationNames (applications isB (Some d)))"
  have ids: "?ids = Object_keys ?obj"
    by (rule applicationNames_ids)
  have absent: "applications isB (None :: 'g user_session option) = Text ''-''"
    by (simp add: applications_def)
  have empty: "?obj = [] \<longrightarrow> applications isB (Some d) = Text ''-''"
    by (simp add: applications_def Object_keys_def)
  have nodes: "?obj \<noteq> [] \<longrightarrow>
      (\<exists>cs. applications isB (Some d) = Nodes cs \<and> length cs = length (remdups (map fst ?obj)))"
    by (simp add: applications_Some Object_keys_length)
  have names: "?obj \<noteq> [] \<longrightarrow>
      applicationNames (applications isB (Some d)) = map (\<lambda>k. (k, \<not> isB k)) (Object_keys ?obj)"
    by (simp add: applicationNames_applications)
  have order: "?ids = sort_key decimal (filter isArrayIndex (createdKeys [] ?obj))
        @ filter (\<lambda>k. \<not> isArrayIndex k) (createdKeys [] ?obj)"
    by (simp add: ids Object_keys_def Let_def)
  have dist: "distinct ?ids"
    by (simp only: ids Object_keys_distinct)
  have keys: "set ?ids = fst ` set ?obj"
    by (simp only: ids Object_keys_set)
  have created: "list_all (\<lambda>k. \<not> isArrayIndex k) (map fst ?obj) \<longrightarrow> ?ids = createdKeys [] ?obj"
    by (simp only: ids) (simp add: Object_keys_no_index)
  have inserted: "list_all (\<lambda>k. \<not> isArrayIndex k) (map fst ?obj) \<and> distinct (map fst ?obj) \<longrightarrow>
      ?ids = map fst ?obj"
  proof
    assume a: "list_all (\<lambda>k. \<not> isArrayIndex k) (map fst ?obj) \<and> distinct (map fst ?obj)"
    then have "createdKeys [] ?obj = map fst ?obj"
      using createdKeys_fresh [of "[]" ?obj] by simp
    with a created show "?ids = map fst ?obj" by simp
  qed
  from nodes names have rendered: "?obj \<noteq> [] \<longrightarrow>
      (\<exists>cs. applications isB (Some d) = Nodes cs \<and> length cs = length (remdups (map fst ?obj)))
      \<and> applicationNames (applications isB (Some d)) =
          map (\<lambda>k. (k, \<not> isB k)) (Object_keys ?obj)"
    by blast
  from absent empty rendered order dist keys created inserted show ?thesis
    by (intro conjI)
qed

theorem applications_references_witness:
  "authorizations (payload
      \<lparr>payload = \<lparr>uid = ''s1'', loginTs = None,
                   authorizations = ([] :: (string \<times> unit) list)\<rparr>\<rparr>) = []
   \<and> applications (\<lambda>k. k = ''admin-console'')
        (Some \<lparr>payload = \<lparr>uid = ''s1'', loginTs = None,
                            authorizations = ([] :: (string \<times> unit) list)\<rparr>\<rparr>)
       = Text ''-''
   \<and> authorizations (payload
        \<lparr>payload = \<lparr>uid = ''s1'', loginTs = None,
                     authorizations = [(''app1'', ()), (''admin-console'', ())]\<rparr>\<rparr>) \<noteq> []
   \<and> list_all (\<lambda>k. \<not> isArrayIndex k) (map fst [(''app1'', ()), (''admin-console'', ())])
   \<and> distinct (map fst [(''app1'', ()), (''admin-console'', ())])
   \<and> applicationNames (applications (\<lambda>k. k = ''admin-console'')
        (Some \<lparr>payload = \<lparr>uid = ''s1'', loginTs = None,
                            authorizations = [(''app1'', ()), (''admin-console'', ())]\<rparr>\<rparr>))
       = [(''app1'', True), (''admin-console'', False)]
   \<and> map fst (applicationNames (applications (\<lambda>k. k = ''admin-console'')
        (Some \<lparr>payload = \<lparr>uid = ''s1'', loginTs = None,
                            authorizations = [(''app1'', ()), (''admin-console'', ())]\<rparr>\<rparr>)))
       = [''app1'', ''admin-console'']"
  using applications_references
          [of "\<lambda>k. k = ''admin-console''"
              "\<lparr>payload = \<lparr>uid = ''s1'', loginTs = None,
                            authorizations = ([] :: (string \<times> unit) list)\<rparr>\<rparr>"]
        applications_references
          [of "\<lambda>k. k = ''admin-console''"
              "\<lparr>payload = \<lparr>uid = ''s1'', loginTs = None,
                            authorizations = [(''app1'', ()), (''admin-console'', ())]\<rparr>\<rparr>"]
  by (simp add: Object_keys_def isArrayIndex_def decimal_def digitValue_def)

subsection \<open>Information fields\<close>

text \<open>
  C9. Without a session record \<^verbatim>\<open>infoFields\<close> is the empty list; with one, it is a list of
  nine fields in a fixed order whose keys are pairwise distinct.
\<close>

theorem infoFields_keys:
  "infoFields env uo None = []
   \<and> map key (infoFields env uo (Some d)) =
       [''session-id'', ''user'', ''applications'', ''signed-in-at'', ''ip'', ''location'',
        ''browser-name'', ''os-name'', ''device-model'']
   \<and> distinct (map key (infoFields env uo (Some d)))"
  by (simp add: infoFields_def Let_def)

subsection \<open>Cookie guard\<close>

lemma optional_string_issues:
  "(case z_optional z_string x of Inl ps \<Rightarrow> map (under k) ps | Inr v \<Rightarrow> []) = [] \<longleftrightarrow>
   (case x of None \<Rightarrow> True | Some (JString s) \<Rightarrow> True | Some v \<Rightarrow> False)"
  by (cases x) (auto split: json.splits)

text \<open>
  C10. The cookie guard accepts a value exactly when it is an object in which each of
  \<^verbatim>\<open>appId\<close>, \<^verbatim>\<open>organizationId\<close> and \<^verbatim>\<open>ui_locales\<close> is absent or a string; so it accepts
  the empty object and every object holding strings under a subset of the three names, and
  rejects an object in which one of the three is there with a value that is not a string.
\<close>

theorem logtoUiCookieGuard_accepts:
  "accepts logtoUiCookieGuard data =
     (case data of
        JObject obj \<Rightarrow>
          absentOrString obj ''appId'' \<and> absentOrString obj ''organizationId''
          \<and> absentOrString obj ''ui_locales''
      | _ \<Rightarrow> False)"
  by (cases data)
     (simp_all add: accepts_def logtoUiCookieGuard_def z_partial_def Let_def absentOrString_def
        optional_string_issues)

end
